theory Spec2Isabelle
  imports Main
begin

section \<open>Values, exceptions and records\<close>

text \<open>
  The gateway of \<^verbatim>\<open>app/main.py\<close> handles JSON values at three places: the claims of a
  session token, the body of the login request and the replies of the upstream API.
  The scalar JSON values are modelled; a Python \<^verbatim>\<open>dict\<close> is a map from keys to values.
\<close>

datatype jval = JNull | JBool bool | JInt int | JStr string

type_synonym claims = "string \<rightharpoonup> jval"

text \<open>\<^verbatim>\<open>payload.get(k)\<close>: \<^verbatim>\<open>None\<close> for a missing key and for a JSON null.\<close>

definition dict_get :: "claims \<Rightarrow> string \<Rightarrow> jval option" where
  "dict_get payload k =
     (case payload k of None \<Rightarrow> None | Some JNull \<Rightarrow> None | Some v \<Rightarrow> Some v)"

text \<open>Python truthiness of a value, as \<^verbatim>\<open>if not external_token\<close> reads it.\<close>

fun truthy :: "jval \<Rightarrow> bool" where
  "truthy JNull = False"
| "truthy (JBool b) = b"
| "truthy (JInt i) = (i \<noteq> 0)"
| "truthy (JStr s) = (s \<noteq> [])"

text \<open>Decimal text of a number, as an f-string prints it.\<close>

fun str_nat :: "nat \<Rightarrow> string" where
  "str_nat n =
     (if n < 10 then [char_of (48 + n)]
      else str_nat (n div 10) @ [char_of (48 + n mod 10)])"

declare str_nat.simps [simp del]

definition str_int :: "int \<Rightarrow> string" where
  "str_int i = (if i < 0 then CHR ''-'' # str_nat (nat (- i)) else str_nat (nat i))"

fun py_str :: "jval \<Rightarrow> string" where
  "py_str JNull = ''None''"
| "py_str (JBool b) = (if b then ''True'' else ''False'')"
| "py_str (JInt i) = str_int i"
| "py_str (JStr s) = s"

text \<open>
  The three ways the token codec fails (the kinds of \<^verbatim>\<open>JWTError\<close>), and the exceptions
  of the program. \<^verbatim>\<open>HTTPException\<close> carries its status code, its detail and its headers;
  a detail written \<^verbatim>\<open>str(e)\<close> in the source is kept as \<open>Str e\<close>. Any other Python
  exception is \<open>PyError\<close> with the name of its class.
\<close>

datatype decode_error = Malformed | BadSignature | Expired

datatype exn =
    HTTPException nat detail "(string \<times> string) list"
  | JWTError decode_error
  | PyError string
and detail = Text string | Str exn

text \<open>
  What the framework answers: the status code of a raised \<^verbatim>\<open>HTTPException\<close>, 500 for
  any other exception that leaves the handler, 200 for a returned value.
\<close>

fun status_of :: "exn + 'a \<Rightarrow> nat" where
  "status_of (Inr v) = 200"
| "status_of (Inl (HTTPException code d h)) = code"
| "status_of (Inl e) = 500"

fun detail_of :: "exn + 'a \<Rightarrow> detail option" where
  "detail_of (Inl (HTTPException code d h)) = Some d"
| "detail_of r = None"

text \<open>
  A row of the user table (\<^verbatim>\<open>app/models/user.py\<close>), with the fields the gateway and the
  seed data of \<^verbatim>\<open>app/db/init_db.py\<close> use. The table is read through \<^verbatim>\<open>get_user\<close> only,
  so it is the map from a username to its row.
\<close>

record user =
  username :: string
  password_hash :: string
  role :: string
  is_active :: bool

type_synonym db = "string \<rightharpoonup> user"

text \<open>
  Modelled from the spec: \<^verbatim>\<open>get_user\<close> of \<^verbatim>\<open>app/crud/user.py\<close> is not among the sources.
  The spec: "lookup(username) -> Option<UserRecord>".
\<close>

definition get_user :: "db \<Rightarrow> string \<Rightarrow> user option" where
  "get_user d name = d name"

text \<open>
  Modelled from the spec: \<^verbatim>\<open>authenticate_user\<close> of \<^verbatim>\<open>app/crud/user.py\<close> is not among
  the sources. The spec: "verify_login(username, password) -> Option<UserRecord>: looks up
  by username, compares password against stored hash [...], returns the record only if
  match and active". The comparison of a password with a hash is the parameter \<open>verify\<close>.
\<close>

definition authenticate_user ::
  "(string \<Rightarrow> string \<Rightarrow> bool) \<Rightarrow> db \<Rightarrow> string \<Rightarrow> string \<Rightarrow> user option" where
  "authenticate_user verify d name password =
     (case get_user d name of
        None \<Rightarrow> None
      | Some u \<Rightarrow> if verify password (password_hash u) \<and> is_active u then Some u else None)"

text \<open>
  \<^verbatim>\<open>TokenData\<close> (\<^verbatim>\<open>app/schemas/token.py\<close>) holds the two fields the call site annotates as
  \<^verbatim>\<open>str\<close>; building it from anything but two strings raises a validation error.
\<close>

datatype token_data = TokenData string string

fun TokenData_init :: "jval \<Rightarrow> jval \<Rightarrow> exn + token_data" where
  "TokenData_init (JStr u) (JStr r) = Inr (TokenData u r)"
| "TokenData_init u r = Inl (PyError ''ValidationError'')"

section \<open>The authorization gate\<close>

definition credentials_exception :: exn where
  "credentials_exception =
     HTTPException 401 (Text ''Could not validate credentials'')
       [(''WWW-Authenticate'', ''Bearer'')]"

text \<open>
  \<^verbatim>\<open>get_current_user\<close>. \<^verbatim>\<open>decode_access_token\<close> is the parameter \<open>dec\<close>: it returns the
  payload or raises. Both handlers of the \<^verbatim>\<open>try\<close> block raise the same exception, also
  for the exception raised inside the block.
\<close>

definition get_current_user ::
  "('tok \<Rightarrow> exn + claims) \<Rightarrow> db \<Rightarrow> 'tok \<Rightarrow> exn + user" where
  "get_current_user dec d token =
     (case dec token of
        Inl e \<Rightarrow> Inl credentials_exception
      | Inr payload \<Rightarrow>
          (case (dict_get payload ''sub'', dict_get payload ''role'') of
             (Some name, Some r) \<Rightarrow>
               (case TokenData_init name r of
                  Inl e \<Rightarrow> Inl credentials_exception
                | Inr (TokenData td_username td_role) \<Rightarrow>
                    (case get_user d td_username of
                       None \<Rightarrow> Inl credentials_exception
                     | Some u \<Rightarrow>
                         if role u \<noteq> td_role then Inl credentials_exception
                         else Inr u))
           | _ \<Rightarrow> Inl credentials_exception))"

definition get_current_active_user ::
  "('tok \<Rightarrow> exn + claims) \<Rightarrow> db \<Rightarrow> 'tok \<Rightarrow> exn + user" where
  "get_current_active_user dec d token =
     (case get_current_user dec d token of
        Inl e \<Rightarrow> Inl e
      | Inr current_user \<Rightarrow>
          if \<not> is_active current_user
          then Inl (HTTPException 400 (Text ''Inactive user'') [])
          else Inr current_user)"

section \<open>Settings\<close>

text \<open>
  \<^verbatim>\<open>app/core/config.py\<close>. The fields of \<^verbatim>\<open>Settings\<close> with their defaults; \<open>environment\<close>
  holds, for each field, the value the process environment or the \<^verbatim>\<open>.env\<close> file supplies,
  if any. The default of \<^verbatim>\<open>SECRET_KEY\<close> is \<^verbatim>\<open>secrets.token_urlsafe(32)\<close>, evaluated once
  when the class body runs, that is when the process starts: the value drawn there is the
  argument \<open>drawn\<close>.
\<close>

record settings =
  PROJECT_NAME :: string
  VERSION :: string
  API_V1_STR :: string
  DEBUG :: bool
  DATABASE_URL :: string
  SECRET_KEY :: string
  ACCESS_TOKEN_EXPIRE_MINUTES :: int
  FAKE_API_BASE_URL :: string

record environment =
  env_PROJECT_NAME :: "string option"
  env_VERSION :: "string option"
  env_API_V1_STR :: "string option"
  env_DEBUG :: "bool option"
  env_DATABASE_URL :: "string option"
  env_SECRET_KEY :: "string option"
  env_ACCESS_TOKEN_EXPIRE_MINUTES :: "int option"
  env_FAKE_API_BASE_URL :: "string option"

definition or_default :: "'a option \<Rightarrow> 'a \<Rightarrow> 'a" where
  "or_default supplied dflt = (case supplied of None \<Rightarrow> dflt | Some v \<Rightarrow> v)"

definition Settings :: "environment \<Rightarrow> string \<Rightarrow> settings" where
  "Settings env drawn =
     \<lparr>PROJECT_NAME = or_default (env_PROJECT_NAME env) ''FastAPI Users API'',
      VERSION = or_default (env_VERSION env) ''1.0.0'',
      API_V1_STR = or_default (env_API_V1_STR env) ''/api/v1'',
      DEBUG = or_default (env_DEBUG env) False,
      DATABASE_URL = or_default (env_DATABASE_URL env) ''sqlite:///./sql_app.db'',
      SECRET_KEY = or_default (env_SECRET_KEY env) drawn,
      ACCESS_TOKEN_EXPIRE_MINUTES = or_default (env_ACCESS_TOKEN_EXPIRE_MINUTES env) 30,
      FAKE_API_BASE_URL =
        or_default (env_FAKE_API_BASE_URL env)
          ''https://api-onecloud.multicloud.tivit.com/fake''\<rparr>"

text \<open>
  \<^verbatim>\<open>timedelta(minutes=m)\<close>, in seconds. Python normalises the duration to days, seconds
  and microseconds and raises \<^verbatim>\<open>OverflowError\<close> when the days exceed 999999999 in
  magnitude.
\<close>

definition timedelta_minutes :: "int \<Rightarrow> exn + int" where
  "timedelta_minutes m =
     (if abs (m div 1440) \<le> 999999999 then Inr (60 * m)
      else Inl (PyError ''OverflowError''))"

section \<open>The upstream API\<close>

text \<open>
  A request the gateway sends, and what comes back: an exception of the HTTP client when
  the upstream is unreachable, a response otherwise. \<open>json\<close> is the result of
  \<^verbatim>\<open>response.json()\<close>: the parsed body, or the exception that parsing raises. The
  upstream is a function from requests to outcomes; every handler returns the list of
  the requests it has sent next to its result.
\<close>

datatype http_method = GET | POST

record request =
  http_method :: http_method
  url :: string
  params :: "(string \<times> string) list"
  headers :: "(string \<times> string) list"

datatype jdoc = Obj "string \<rightharpoonup> jval" | Val jval

record response =
  status_code :: nat
  body_text :: string
  json :: "exn + jdoc"

type_synonym upstream = "request \<Rightarrow> exn + response"

text \<open>\<^verbatim>\<open>doc[key]\<close>.\<close>

fun subscript :: "jdoc \<Rightarrow> string \<Rightarrow> exn + jval" where
  "subscript (Obj m) k = (case m k of None \<Rightarrow> Inl (PyError ''KeyError'') | Some v \<Rightarrow> Inr v)"
| "subscript (Val v) k = Inl (PyError ''TypeError'')"

text \<open>
  The handler \<^verbatim>\<open>except Exception as e\<close> that closes the \<^verbatim>\<open>try\<close> block of every route:
  whatever was raised inside, an \<^verbatim>\<open>HTTPException\<close> included, is raised again as status 500
  with \<^verbatim>\<open>str(e)\<close> as its detail.
\<close>

fun except_Exception :: "(exn + 'a) \<times> request list \<Rightarrow> (exn + 'a) \<times> request list" where
  "except_Exception (Inl e, sent) = (Inl (HTTPException 500 (Str e) []), sent)"
| "except_Exception (Inr v, sent) = (Inr v, sent)"

section \<open>The routes\<close>

text \<open>
  \<^verbatim>\<open>POST /token\<close>. \<^verbatim>\<open>create_access_token\<close> is the parameter \<open>enc\<close>, called with the clock
  reading, the data and the lifetime in seconds. The response is the dictionary of the
  source: \<open>Token access_token token_type role\<close>.
\<close>

datatype LoginData = LoginData string string

datatype 'tok token_response = Token 'tok string string

definition login_for_access_token ::
  "(string \<Rightarrow> string \<Rightarrow> bool) \<Rightarrow> db \<Rightarrow> upstream \<Rightarrow> settings \<Rightarrow>
   (int \<Rightarrow> claims \<Rightarrow> int \<Rightarrow> 'tok) \<Rightarrow> int \<Rightarrow> LoginData \<Rightarrow>
   (exn + 'tok token_response) \<times> request list" where
  "login_for_access_token verify d up st enc now login_data =
     (case login_data of LoginData name password \<Rightarrow>
        (case authenticate_user verify d name password of
           None \<Rightarrow>
             (Inl (HTTPException 401 (Text ''Incorrect username or password'')
                     [(''WWW-Authenticate'', ''Bearer'')]), [])
         | Some u \<Rightarrow>
             except_Exception
               (let req = \<lparr>http_method = POST,
                           url = FAKE_API_BASE_URL st @ ''/token'',
                           params = [(''username'', name), (''password'', password)],
                           headers = []\<rparr>
                in case up req of
                     Inl e \<Rightarrow> (Inl e, [req])
                   | Inr resp \<Rightarrow>
                       if status_code resp \<noteq> 200
                       then (Inl (HTTPException (status_code resp)
                                    (Text (str_nat (status_code resp) @ '': '' @ body_text resp))
                                    []), [req])
                       else
                         (case json resp of
                            Inl e \<Rightarrow> (Inl e, [req])
                          | Inr doc \<Rightarrow>
                              (case subscript doc ''access_token'' of
                                 Inl e \<Rightarrow> (Inl e, [req])
                               | Inr external_token \<Rightarrow>
                                   (case timedelta_minutes (ACCESS_TOKEN_EXPIRE_MINUTES st) of
                                      Inl e \<Rightarrow> (Inl e, [req])
                                    | Inr access_token_expires \<Rightarrow>
                                        (let access_token =
                                               enc now
                                                 [''sub'' \<mapsto> JStr (username u),
                                                  ''role'' \<mapsto> JStr (role u),
                                                  ''ext_token'' \<mapsto> external_token]
                                                 access_token_expires
                                         in (Inr (Token access_token ''bearer'' (role u)),
                                             [req]))))))))"

text \<open>
  \<^verbatim>\<open>GET /user\<close> and \<^verbatim>\<open>GET /admin\<close>. The dependency \<^verbatim>\<open>get_current_active_user\<close> runs
  first and decodes the token at the clock reading \<open>t1\<close>; the body of the route decodes
  it again, at \<open>t2\<close>.
\<close>

definition read_user_route ::
  "(int \<Rightarrow> 'tok \<Rightarrow> exn + claims) \<Rightarrow> db \<Rightarrow> upstream \<Rightarrow> settings \<Rightarrow>
   int \<Rightarrow> int \<Rightarrow> 'tok \<Rightarrow> (exn + jdoc) \<times> request list" where
  "read_user_route dec d up st t1 t2 credentials =
     (case get_current_active_user (dec t1) d credentials of
        Inl e \<Rightarrow> (Inl e, [])
      | Inr current_user \<Rightarrow>
          if role current_user \<notin> set [''user'', ''admin'']
          then (Inl (HTTPException 403 (Text ''Not enough permissions'') []), [])
          else
            except_Exception
              (case dec t2 credentials of
                 Inl e \<Rightarrow> (Inl e, [])
               | Inr payload \<Rightarrow>
                   (case dict_get payload ''ext_token'' of
                      None \<Rightarrow>
                        (Inl (HTTPException 401 (Text ''External token not found'') []), [])
                    | Some external_token \<Rightarrow>
                        if \<not> truthy external_token
                        then (Inl (HTTPException 401 (Text ''External token not found'') []),
                              [])
                        else
                          (let req = \<lparr>http_method = GET,
                                      url = FAKE_API_BASE_URL st @ ''/user'',
                                      params = [],
                                      headers = [(''Authorization'',
                                                  ''Bearer '' @ py_str external_token)]\<rparr>
                           in case up req of
                                Inl e \<Rightarrow> (Inl e, [req])
                              | Inr resp \<Rightarrow>
                                  (case json resp of
                                     Inl e \<Rightarrow> (Inl e, [req])
                                   | Inr doc \<Rightarrow> (Inr doc, [req]))))))"

definition read_admin_route ::
  "(int \<Rightarrow> 'tok \<Rightarrow> exn + claims) \<Rightarrow> db \<Rightarrow> upstream \<Rightarrow> settings \<Rightarrow>
   int \<Rightarrow> int \<Rightarrow> 'tok \<Rightarrow> (exn + jdoc) \<times> request list" where
  "read_admin_route dec d up st t1 t2 credentials =
     (case get_current_active_user (dec t1) d credentials of
        Inl e \<Rightarrow> (Inl e, [])
      | Inr current_user \<Rightarrow>
          if role current_user \<noteq> ''admin''
          then (Inl (HTTPException 403 (Text ''Not enough permissions'') []), [])
          else
            except_Exception
              (case dec t2 credentials of
                 Inl e \<Rightarrow> (Inl e, [])
               | Inr payload \<Rightarrow>
                   (case dict_get payload ''ext_token'' of
                      None \<Rightarrow>
                        (Inl (HTTPException 401 (Text ''External token not found'') []), [])
                    | Some external_token \<Rightarrow>
                        if \<not> truthy external_token
                        then (Inl (HTTPException 401 (Text ''External token not found'') []),
                              [])
                        else
                          (let req = \<lparr>http_method = GET,
                                      url = FAKE_API_BASE_URL st @ ''/admin'',
                                      params = [],
                                      headers = [(''Authorization'',
                                                  ''Bearer '' @ py_str external_token)]\<rparr>
                           in case up req of
                                Inl e \<Rightarrow> (Inl e, [req])
                              | Inr resp \<Rightarrow>
                                  (case json resp of
                                     Inl e \<Rightarrow> (Inl e, [req])
                                   | Inr doc \<Rightarrow> (Inr doc, [req]))))))"

section \<open>The token codec\<close>

text \<open>
  A session token: the segment that carries the serialised claims and the signature
  segment, a string of bytes. The serialisation of claims (\<open>ser\<close>, with its inverse
  \<open>de\<close>, which fails on a segment that is no serialisation) and the symmetric signing
  algorithm (\<open>sign\<close>, from the secret and the segment to the signature) are parameters.
\<close>

record 'seg session_token =
  claims_seg :: 'seg
  signature_seg :: string

text \<open>
  Modelled from the spec: \<^verbatim>\<open>create_access_token\<close> of \<^verbatim>\<open>app/core/security.py\<close> is not
  among the sources. The spec: "encode(claims: Claims, ttl: duration) -> SessionToken:
  serializes claims plus issued_at = now, expires_at = now + ttl, signs with a server-held
  secret using a symmetric signing algorithm, returns the token string". The timestamps
  are the claims \<^verbatim>\<open>iat\<close> and \<^verbatim>\<open>exp\<close>, in seconds.
\<close>

definition create_access_token ::
  "(claims \<Rightarrow> 'seg) \<Rightarrow> (string \<Rightarrow> 'seg \<Rightarrow> string) \<Rightarrow> string \<Rightarrow>
   int \<Rightarrow> claims \<Rightarrow> int \<Rightarrow> 'seg session_token" where
  "create_access_token ser sign secret now data expires_delta =
     (let to_encode = data(''iat'' \<mapsto> JInt now, ''exp'' \<mapsto> JInt (now + expires_delta));
          seg = ser to_encode
      in \<lparr>claims_seg = seg, signature_seg = sign secret seg\<rparr>)"

text \<open>
  Modelled from the spec: \<^verbatim>\<open>decode_access_token\<close> of \<^verbatim>\<open>app/core/security.py\<close> is not
  among the sources. The spec: "decode(token: string) -> Result<Claims, DecodeError>:
  verifies signature, checks expiry, deserializes claims. Fails with
  DecodeError::BadSignature if signature verification fails, DecodeError::Expired if
  now >= expires_at, DecodeError::Malformed if the structure cannot be parsed".
\<close>

definition decode_access_token ::
  "('seg \<Rightarrow> claims option) \<Rightarrow> (string \<Rightarrow> 'seg \<Rightarrow> string) \<Rightarrow> string \<Rightarrow>
   int \<Rightarrow> 'seg session_token \<Rightarrow> exn + claims" where
  "decode_access_token de sign secret now token =
     (if signature_seg token \<noteq> sign secret (claims_seg token)
      then Inl (JWTError BadSignature)
      else
        (case de (claims_seg token) of
           None \<Rightarrow> Inl (JWTError Malformed)
         | Some payload \<Rightarrow>
             (case payload ''exp'' of
                Some (JInt expires_at) \<Rightarrow>
                  if now \<ge> expires_at then Inl (JWTError Expired) else Inr payload
              | _ \<Rightarrow> Inl (JWTError Malformed))))"


section \<open>Example inputs\<close>

text \<open>
  Concrete inputs for the examples that follow the theorems: codecs whose token is its
  own payload, a user table with a user, an administrator, a user of another role and a
  deactivated user, and two upstreams.
\<close>

definition plain_dec :: "int \<Rightarrow> claims \<Rightarrow> exn + claims" where
  "plain_dec now token = Inr token"

definition rejecting_dec :: "int \<Rightarrow> claims \<Rightarrow> exn + claims" where
  "rejecting_dec now token = Inl (JWTError BadSignature)"

definition plain_enc :: "int \<Rightarrow> claims \<Rightarrow> int \<Rightarrow> claims" where
  "plain_enc now data expires_delta = data"

definition row :: "string \<Rightarrow> string \<Rightarrow> bool \<Rightarrow> user" where
  "row name r active =
     \<lparr>username = name, password_hash = ''h-'' @ name, role = r, is_active = active\<rparr>"

definition example_db :: db where
  "example_db =
     [''user'' \<mapsto> row ''user'' ''user'' True,
      ''admin'' \<mapsto> row ''admin'' ''admin'' True,
      ''guest'' \<mapsto> row ''guest'' ''guest'' True,
      ''former'' \<mapsto> row ''former'' ''user'' False]"

definition claims_of :: "string \<Rightarrow> string \<Rightarrow> claims" where
  "claims_of name r =
     [''sub'' \<mapsto> JStr name, ''role'' \<mapsto> JStr r, ''ext_token'' \<mapsto> JStr ''upstream-credential'']"

definition example_verify :: "string \<Rightarrow> string \<Rightarrow> bool" where
  "example_verify password h = (h = ''h-'' @ password)"

definition unreachable :: upstream where
  "unreachable req = Inl (PyError ''ConnectError'')"

definition answering :: "nat \<Rightarrow> upstream" where
  "answering code req =
     Inr \<lparr>status_code = code, body_text = ''{}'',
          json = Inr (Obj [''access_token'' \<mapsto> JStr ''upstream-credential''])\<rparr>"

definition no_environment :: environment where
  "no_environment =
     \<lparr>env_PROJECT_NAME = None, env_VERSION = None, env_API_V1_STR = None, env_DEBUG = None,
      env_DATABASE_URL = None, env_SECRET_KEY = None, env_ACCESS_TOKEN_EXPIRE_MINUTES = None,
      env_FAKE_API_BASE_URL = None\<rparr>"

text \<open>
  A codec for the examples: the claims segment is the claims themselves, and the signature
  is the secret followed by the subject. \<open>issued_token\<close> is the token it issues to user
  \<^verbatim>\<open>user\<close>.
\<close>

definition plain_ser :: "claims \<Rightarrow> claims" where
  "plain_ser c = c"

definition plain_de :: "claims \<Rightarrow> claims option" where
  "plain_de seg = Some seg"

definition keyed_sign :: "string \<Rightarrow> claims \<Rightarrow> string" where
  "keyed_sign secret seg =
     secret @ ''.'' @ (case seg ''sub'' of Some v \<Rightarrow> py_str v | None \<Rightarrow> [])"

definition issued_token :: "string \<Rightarrow> int \<Rightarrow> int \<Rightarrow> claims session_token" where
  "issued_token secret now ttl =
     create_access_token plain_ser keyed_sign secret now (claims_of ''user'' ''user'') ttl"

text \<open>
  A decoder that accepts a token until the clock reads 10, an upstream whose reply does
  not parse, and a codec with a text serialisation: the five claims of a session token,
  each rendered with a tag for its type, separated by \<^verbatim>\<open>|\<close>; the deserialisation splits
  and parses them. Its signature is made of the first bytes of the secret and the last
  bytes of the segment.
\<close>

definition expiring_dec :: "int \<Rightarrow> claims \<Rightarrow> exn + claims" where
  "expiring_dec now token = (if now \<ge> 10 then Inl (JWTError Expired) else Inr token)"

definition garbled :: upstream where
  "garbled req =
     Inr \<lparr>status_code = 200, body_text = ''<html>'', json = Inl (PyError ''JSONDecodeError'')\<rparr>"

definition claim_keys :: "string list" where
  "claim_keys = [''sub'', ''role'', ''ext_token'', ''iat'', ''exp'']"

fun render_claim :: "jval option \<Rightarrow> string" where
  "render_claim None = ''-''"
| "render_claim (Some JNull) = ''n''"
| "render_claim (Some (JBool b)) = (if b then ''t'' else ''f'')"
| "render_claim (Some (JInt i)) = CHR ''i'' # str_int i"
| "render_claim (Some (JStr s)) = CHR ''s'' # s"

fun join_fields :: "string list \<Rightarrow> string" where
  "join_fields [] = []"
| "join_fields [f] = f"
| "join_fields (f # fs) = f @ CHR ''|'' # join_fields fs"

definition text_ser :: "claims \<Rightarrow> string" where
  "text_ser c = join_fields (map (\<lambda>k. render_claim (c k)) claim_keys)"

fun split_fields :: "string \<Rightarrow> string list" where
  "split_fields [] = [[]]"
| "split_fields (c # cs) =
     (if c = CHR ''|'' then [] # split_fields cs
      else (case split_fields cs of [] \<Rightarrow> [[c]] | f # fs \<Rightarrow> (c # f) # fs))"

fun parse_digits :: "nat \<Rightarrow> string \<Rightarrow> nat option" where
  "parse_digits acc [] = Some acc"
| "parse_digits acc (c # cs) =
     (if c \<in> set ''0123456789'' then parse_digits (10 * acc + (of_char c - 48)) cs
      else None)"

definition parse_int :: "string \<Rightarrow> int option" where
  "parse_int s =
     (case s of
        [] \<Rightarrow> None
      | c # cs \<Rightarrow>
          if c = CHR ''-''
          then (if cs = [] then None else map_option (\<lambda>n. - int n) (parse_digits 0 cs))
          else map_option int (parse_digits 0 s))"

definition parse_claim :: "string \<Rightarrow> jval option option" where
  "parse_claim f =
     (case f of
        [] \<Rightarrow> None
      | c # rest \<Rightarrow>
          if f = ''-'' then Some None
          else if f = ''n'' then Some (Some JNull)
          else if f = ''t'' then Some (Some (JBool True))
          else if f = ''f'' then Some (Some (JBool False))
          else if c = CHR ''i'' then map_option (\<lambda>i. Some (JInt i)) (parse_int rest)
          else if c = CHR ''s'' then Some (Some (JStr rest))
          else None)"

definition text_de :: "string \<Rightarrow> claims option" where
  "text_de seg =
     (case map parse_claim (split_fields seg) of
        [Some a, Some b, Some c, Some d, Some e] \<Rightarrow>
          Some (Map.empty(''sub'' := a, ''role'' := b, ''ext_token'' := c,
                          ''iat'' := d, ''exp'' := e))
      | _ \<Rightarrow> None)"

definition prefix_sign :: "string \<Rightarrow> string \<Rightarrow> string" where
  "prefix_sign secret seg = take 8 (secret @ ''........'') @ take 8 (rev seg)"

section \<open>Authentication against the user table\<close>

lemma get_current_user_Inl:
  "get_current_user dec d token = Inl e \<Longrightarrow> e = credentials_exception"
  by (auto simp: get_current_user_def
      split: sum.splits option.splits token_data.splits if_splits prod.splits)

lemma status_credentials_exception [simp]:
  "status_of (Inl credentials_exception) = 401"
  by (simp add: credentials_exception_def)

text \<open>
  Claim C1. A session token whose role claim differs from the role that the user table
  holds for its subject at the time of the request is rejected by \<^verbatim>\<open>get_current_user\<close>
  with the 401 exception: the stale claim is not honoured.
\<close>

theorem role_mismatch_rejected:
  assumes "dec token = Inr payload"
    and "dict_get payload ''sub'' = Some (JStr name)"
    and "dict_get payload ''role'' = Some r"
    and "get_user d name = Some u"
    and "r \<noteq> JStr (role u)"
  shows "get_current_user dec d token = Inl credentials_exception
         \<and> status_of (get_current_user dec d token) = 401"
proof -
  have "get_current_user dec d token = Inl credentials_exception"
    using assms by (cases r) (auto simp: get_current_user_def)
  then show ?thesis by simp
qed

text \<open>
  The scenario of the spec: the token of user \<^verbatim>\<open>user\<close> with role \<^verbatim>\<open>user\<close> is accepted;
  once the stored role is \<^verbatim>\<open>admin\<close>, the same token is rejected.
\<close>

theorem role_mismatch_rejected_witness:
  "get_current_user (plain_dec 0) example_db (claims_of ''user'' ''user'')
     = Inr (row ''user'' ''user'' True)
   \<and> get_user (example_db(''user'' \<mapsto> row ''user'' ''admin'' True)) ''user''
     = Some (row ''user'' ''admin'' True)
   \<and> JStr ''user'' \<noteq> JStr (role (row ''user'' ''admin'' True))
   \<and> status_of (get_current_user (plain_dec 0)
        (example_db(''user'' \<mapsto> row ''user'' ''admin'' True))
        (claims_of ''user'' ''user'')) = 401"
proof -
  have 1: "plain_dec 0 (claims_of ''user'' ''user'') = Inr (claims_of ''user'' ''user'')"
    by (simp add: plain_dec_def)
  have 2: "dict_get (claims_of ''user'' ''user'') ''sub'' = Some (JStr ''user'')"
    by (simp add: claims_of_def dict_get_def)
  have 3: "dict_get (claims_of ''user'' ''user'') ''role'' = Some (JStr ''user'')"
    by (simp add: claims_of_def dict_get_def)
  have 4: "get_user (example_db(''user'' \<mapsto> row ''user'' ''admin'' True)) ''user''
             = Some (row ''user'' ''admin'' True)"
    by (simp add: get_user_def)
  have 5: "JStr ''user'' \<noteq> JStr (role (row ''user'' ''admin'' True))"
    by (simp add: row_def)
  have 6: "get_current_user (plain_dec 0) example_db (claims_of ''user'' ''user'')
             = Inr (row ''user'' ''user'' True)"
    by (simp add: get_current_user_def 1 2 3 get_user_def example_db_def row_def)
  from role_mismatch_rejected
         [of "plain_dec 0" "claims_of ''user'' ''user''", OF 1 2 3 4 5] 4 5 6
  show ?thesis by blast
qed

lemma get_current_active_user_Inl:
  "get_current_user dec d token = Inl e \<Longrightarrow> get_current_active_user dec d token = Inl credentials_exception"
  using get_current_user_Inl [of dec d token e] by (simp add: get_current_active_user_def)

lemma get_current_active_user_inactive:
  "get_current_user dec d token = Inr u \<Longrightarrow> \<not> is_active u \<Longrightarrow>
   get_current_active_user dec d token = Inl (HTTPException 400 (Text ''Inactive user'') [])"
  by (simp add: get_current_active_user_def)

lemma get_current_active_user_active:
  "get_current_user dec d token = Inr u \<Longrightarrow> is_active u \<Longrightarrow>
   get_current_active_user dec d token = Inr u"
  by (simp add: get_current_active_user_def)

section \<open>Authorization by role\<close>

lemma status_except_Exception:
  "status_of (fst (except_Exception r)) = 200 \<or> status_of (fst (except_Exception r)) = 500"
  by (cases r rule: except_Exception.cases) auto

lemma status_except_Exception_neq [simp]:
  "status_of (fst (except_Exception r)) \<noteq> 403"
  "status_of (fst (except_Exception r)) \<noteq> 401"
  "status_of (fst (except_Exception r)) \<noteq> 400"
  using status_except_Exception [of r] by auto

text \<open>
  Claim C2. For an authenticated active user, \<^verbatim>\<open>GET /admin\<close> answers 403 exactly when
  the role is not \<^verbatim>\<open>admin\<close>, and \<^verbatim>\<open>GET /user\<close> answers 403 exactly when the role is
  neither \<^verbatim>\<open>user\<close> nor \<^verbatim>\<open>admin\<close>: with any other role the request passes the
  authorization check.
\<close>

theorem route_authorization:
  assumes "get_current_active_user (dec t1) d token = Inr u"
  shows "(status_of (fst (read_admin_route dec d up st t1 t2 token)) = 403) = (role u \<noteq> ''admin'')
       \<and> (status_of (fst (read_user_route dec d up st t1 t2 token)) = 403)
           = (role u \<noteq> ''user'' \<and> role u \<noteq> ''admin'')"
proof -
  have "(status_of (fst (read_admin_route dec d up st t1 t2 token)) = 403) = (role u \<noteq> ''admin'')"
    unfolding read_admin_route_def by (simp add: assms)
  moreover
  have "(status_of (fst (read_user_route dec d up st t1 t2 token)) = 403)
           = (role u \<noteq> ''user'' \<and> role u \<noteq> ''admin'')"
    unfolding read_user_route_def by (simp add: assms)
  ultimately show ?thesis by simp
qed

text \<open>
  The scenario of the spec: the token of role \<^verbatim>\<open>user\<close> gets 403 from \<^verbatim>\<open>GET /admin\<close> and
  passes the check of \<^verbatim>\<open>GET /user\<close>.
\<close>

lemma user_token_authenticated: "get_current_active_user (plain_dec 0) example_db (claims_of ''user'' ''user'') = Inr (row ''user'' ''user'' True)"
  by (simp add: get_current_active_user_def get_current_user_def plain_dec_def claims_of_def dict_get_def
         get_user_def example_db_def row_def)

theorem route_authorization_witness:
  "get_current_active_user (plain_dec 0) example_db (claims_of ''user'' ''user'')
     = Inr (row ''user'' ''user'' True)
   \<and> status_of (fst (read_admin_route plain_dec example_db (answering 200) (Settings no_environment ''s'') 0 0
                      (claims_of ''user'' ''user''))) = 403
   \<and> status_of (fst (read_user_route plain_dec example_db (answering 200) (Settings no_environment ''s'') 0 0
                      (claims_of ''user'' ''user''))) \<noteq> 403"
proof -
  have r: "role (row ''user'' ''user'' True) \<noteq> ''admin''" "role (row ''user'' ''user'' True) = ''user''"
    by (simp_all add: row_def)
  from route_authorization [of plain_dec 0 example_db "claims_of ''user'' ''user''", OF user_token_authenticated,
      of "answering 200" "Settings no_environment ''s''" 0] r user_token_authenticated
  show ?thesis by simp
qed


section \<open>Validation failures\<close>

text \<open>
  Claim C3 says that every local validation failure is answered with 401 or 403. A
  deactivated user with a valid token is answered with 400 and the detail
  \<^verbatim>\<open>Inactive user\<close>.
\<close>

theorem inactive_user_status_counterexample:
  "fst (read_user_route plain_dec example_db (answering 200) (Settings no_environment ''s'') 0 0
          (claims_of ''former'' ''user''))
     = Inl (HTTPException 400 (Text ''Inactive user'') [])
   \<and> status_of (fst (read_user_route plain_dec example_db (answering 200)
                      (Settings no_environment ''s'') 0 0 (claims_of ''former'' ''user''))) \<noteq> 401
   \<and> status_of (fst (read_user_route plain_dec example_db (answering 200)
                      (Settings no_environment ''s'') 0 0 (claims_of ''former'' ''user''))) \<noteq> 403"
proof -
  have "get_current_user (plain_dec 0) example_db (claims_of ''former'' ''user'')
          = Inr (row ''former'' ''user'' False)"
    by (simp add: get_current_user_def plain_dec_def claims_of_def dict_get_def get_user_def
        example_db_def row_def)
  then have "get_current_active_user (plain_dec 0) example_db (claims_of ''former'' ''user'')
          = Inl (HTTPException 400 (Text ''Inactive user'') [])"
    by (rule get_current_active_user_inactive) (simp add: row_def)
  then have "read_user_route plain_dec example_db (answering 200) (Settings no_environment ''s'') 0 0
          (claims_of ''former'' ''user'') = (Inl (HTTPException 400 (Text ''Inactive user'') []), [])"
    by (simp add: read_user_route_def)
  then show ?thesis by simp
qed

lemma routes_stop_at_dependency:
  assumes "get_current_active_user (dec t1) d token = Inl e"
  shows "read_user_route dec d up st t1 t2 token = (Inl e, [])"
    and "read_admin_route dec d up st t1 t2 token = (Inl e, [])"
  using assms by (simp_all add: read_user_route_def read_admin_route_def)

lemma rejected_by_get_current_user:
  assumes "get_current_user (dec t1) d token = Inl credentials_exception"
  shows "read_user_route dec d up st t1 t2 token = (Inl credentials_exception, [])
       \<and> read_admin_route dec d up st t1 t2 token = (Inl credentials_exception, [])"
proof -
  have "get_current_active_user (dec t1) d token = Inl credentials_exception"
    using assms by (simp add: get_current_active_user_def)
  then show ?thesis
    by (simp add: routes_stop_at_dependency)
qed

lemma get_current_user_accepts:
  assumes "dec token = Inr payload"
    and "dict_get payload ''sub'' = Some (JStr name)"
    and "dict_get payload ''role'' = Some (JStr (role u))"
    and "get_user d name = Some u"
  shows "get_current_user dec d token = Inr u"
  using assms by (simp add: get_current_user_def)

text \<open>
  Claim C3, amended. Every local validation failure ends the request, and no request is
  sent upstream. When \<^verbatim>\<open>get_current_user\<close> cannot decode the token, when the subject or the
  role claim is missing or is not a string, when the user is unknown and when the role
  claim differs from the stored role, the answer is the same 401 exception,
  \<^verbatim>\<open>Could not validate credentials\<close>. A deactivated user is answered with 400 and
  \<^verbatim>\<open>Inactive user\<close>; an insufficient role with 403 and \<^verbatim>\<open>Not enough permissions\<close>; a
  token that no longer decodes when the body of the route decodes it again, with 500; bad
  credentials at \<^verbatim>\<open>POST /token\<close> with 401 and \<^verbatim>\<open>Incorrect username or password\<close>.
\<close>

theorem validation_failure_responses:
  "(dec t1 token = Inl x \<longrightarrow>
      read_user_route dec d up st t1 t2 token = (Inl credentials_exception, [])
      \<and> read_admin_route dec d up st t1 t2 token = (Inl credentials_exception, []))
   \<and> (dec t1 token = Inr payload
        \<and> (dict_get payload ''sub'' = None \<or> dict_get payload ''role'' = None) \<longrightarrow>
      read_user_route dec d up st t1 t2 token = (Inl credentials_exception, [])
      \<and> read_admin_route dec d up st t1 t2 token = (Inl credentials_exception, []))
   \<and> (dec t1 token = Inr payload
        \<and> dict_get payload ''sub'' = Some s \<and> dict_get payload ''role'' = Some r
        \<and> ((\<nexists>text. s = JStr text) \<or> (\<nexists>text. r = JStr text)) \<longrightarrow>
      read_user_route dec d up st t1 t2 token = (Inl credentials_exception, [])
      \<and> read_admin_route dec d up st t1 t2 token = (Inl credentials_exception, []))
   \<and> (dec t1 token = Inr payload
        \<and> dict_get payload ''sub'' = Some (JStr name) \<and> dict_get payload ''role'' = Some r
        \<and> get_user d name = None \<longrightarrow>
      read_user_route dec d up st t1 t2 token = (Inl credentials_exception, [])
      \<and> read_admin_route dec d up st t1 t2 token = (Inl credentials_exception, []))
   \<and> (dec t1 token = Inr payload
        \<and> dict_get payload ''sub'' = Some (JStr name) \<and> dict_get payload ''role'' = Some r
        \<and> get_user d name = Some u \<and> r \<noteq> JStr (role u) \<longrightarrow>
      read_user_route dec d up st t1 t2 token = (Inl credentials_exception, [])
      \<and> read_admin_route dec d up st t1 t2 token = (Inl credentials_exception, []))
   \<and> (dec t1 token = Inr payload
        \<and> dict_get payload ''sub'' = Some (JStr name)
        \<and> dict_get payload ''role'' = Some (JStr (role u))
        \<and> get_user d name = Some u \<and> \<not> is_active u \<longrightarrow>
      read_user_route dec d up st t1 t2 token
        = (Inl (HTTPException 400 (Text ''Inactive user'') []), [])
      \<and> read_admin_route dec d up st t1 t2 token
        = (Inl (HTTPException 400 (Text ''Inactive user'') []), []))
   \<and> (dec t1 token = Inr payload
        \<and> dict_get payload ''sub'' = Some (JStr name)
        \<and> dict_get payload ''role'' = Some (JStr (role u))
        \<and> get_user d name = Some u \<and> is_active u
        \<and> role u \<noteq> ''user'' \<and> role u \<noteq> ''admin'' \<longrightarrow>
      read_user_route dec d up st t1 t2 token
        = (Inl (HTTPException 403 (Text ''Not enough permissions'') []), []))
   \<and> (dec t1 token = Inr payload
        \<and> dict_get payload ''sub'' = Some (JStr name)
        \<and> dict_get payload ''role'' = Some (JStr (role u))
        \<and> get_user d name = Some u \<and> is_active u \<and> role u \<noteq> ''admin'' \<longrightarrow>
      read_admin_route dec d up st t1 t2 token
        = (Inl (HTTPException 403 (Text ''Not enough permissions'') []), []))
   \<and> (dec t1 token = Inr payload
        \<and> dict_get payload ''sub'' = Some (JStr name)
        \<and> dict_get payload ''role'' = Some (JStr (role u))
        \<and> get_user d name = Some u \<and> is_active u
        \<and> (role u = ''user'' \<or> role u = ''admin'')
        \<and> dec t2 token = Inl x \<longrightarrow>
      read_user_route dec d up st t1 t2 token = (Inl (HTTPException 500 (Str x) []), []))
   \<and> (dec t1 token = Inr payload
        \<and> dict_get payload ''sub'' = Some (JStr name)
        \<and> dict_get payload ''role'' = Some (JStr (role u))
        \<and> get_user d name = Some u \<and> is_active u \<and> role u = ''admin''
        \<and> dec t2 token = Inl x \<longrightarrow>
      read_admin_route dec d up st t1 t2 token = (Inl (HTTPException 500 (Str x) []), []))
   \<and> (authenticate_user verify d name password = None \<longrightarrow>
      login_for_access_token verify d up st enc now (LoginData name password)
        = (Inl (HTTPException 401 (Text ''Incorrect username or password'')
                  [(''WWW-Authenticate'', ''Bearer'')]), []))"
  (is "?decode \<and> ?missing \<and> ?nonstring \<and> ?unknown \<and> ?mismatch \<and> ?inactive
       \<and> ?forbidden_user \<and> ?forbidden_admin \<and> ?second_user \<and> ?second_admin
       \<and> ?login")
proof -
  have "?decode"
  proof
    assume "dec t1 token = Inl x"
    then have "get_current_user (dec t1) d token = Inl credentials_exception"
      by (simp add: get_current_user_def)
    then show "read_user_route dec d up st t1 t2 token = (Inl credentials_exception, [])
      \<and> read_admin_route dec d up st t1 t2 token = (Inl credentials_exception, [])"
      by (rule rejected_by_get_current_user)
  qed
  moreover have "?missing"
  proof
    assume "dec t1 token = Inr payload
        \<and> (dict_get payload ''sub'' = None \<or> dict_get payload ''role'' = None)"
    then have "get_current_user (dec t1) d token = Inl credentials_exception"
      by (auto simp: get_current_user_def split: option.splits)
    then show "read_user_route dec d up st t1 t2 token = (Inl credentials_exception, [])
      \<and> read_admin_route dec d up st t1 t2 token = (Inl credentials_exception, [])"
      by (rule rejected_by_get_current_user)
  qed
  moreover have "?nonstring"
  proof
    assume a: "dec t1 token = Inr payload
        \<and> dict_get payload ''sub'' = Some s \<and> dict_get payload ''role'' = Some r
        \<and> ((\<nexists>text. s = JStr text) \<or> (\<nexists>text. r = JStr text))"
    then have "TokenData_init s r = Inl (PyError ''ValidationError'')"
      by (cases s; cases r) auto
    then have "get_current_user (dec t1) d token = Inl credentials_exception"
      using a by (simp add: get_current_user_def)
    then show "read_user_route dec d up st t1 t2 token = (Inl credentials_exception, [])
      \<and> read_admin_route dec d up st t1 t2 token = (Inl credentials_exception, [])"
      by (rule rejected_by_get_current_user)
  qed
  moreover have "?unknown"
  proof
    assume a: "dec t1 token = Inr payload
        \<and> dict_get payload ''sub'' = Some (JStr name) \<and> dict_get payload ''role'' = Some r
        \<and> get_user d name = None"
    then have "get_current_user (dec t1) d token = Inl credentials_exception"
      by (cases r) (auto simp: get_current_user_def)
    then show "read_user_route dec d up st t1 t2 token = (Inl credentials_exception, [])
      \<and> read_admin_route dec d up st t1 t2 token = (Inl credentials_exception, [])"
      by (rule rejected_by_get_current_user)
  qed
  moreover have "?mismatch"
  proof
    assume a: "dec t1 token = Inr payload
        \<and> dict_get payload ''sub'' = Some (JStr name) \<and> dict_get payload ''role'' = Some r
        \<and> get_user d name = Some u \<and> r \<noteq> JStr (role u)"
    then have "get_current_user (dec t1) d token = Inl credentials_exception"
      by (cases r) (auto simp: get_current_user_def)
    then show "read_user_route dec d up st t1 t2 token = (Inl credentials_exception, [])
      \<and> read_admin_route dec d up st t1 t2 token = (Inl credentials_exception, [])"
      by (rule rejected_by_get_current_user)
  qed
  moreover have "?inactive"
  proof
    assume a: "dec t1 token = Inr payload
        \<and> dict_get payload ''sub'' = Some (JStr name)
        \<and> dict_get payload ''role'' = Some (JStr (role u))
        \<and> get_user d name = Some u \<and> \<not> is_active u"
    then have "get_current_user (dec t1) d token = Inr u"
      by (simp add: get_current_user_accepts)
    then have "get_current_active_user (dec t1) d token
                 = Inl (HTTPException 400 (Text ''Inactive user'') [])"
      using a by (simp add: get_current_active_user_inactive)
    then show "read_user_route dec d up st t1 t2 token
        = (Inl (HTTPException 400 (Text ''Inactive user'') []), [])
      \<and> read_admin_route dec d up st t1 t2 token
        = (Inl (HTTPException 400 (Text ''Inactive user'') []), [])"
      by (simp add: routes_stop_at_dependency)
  qed
  moreover have "?forbidden_user"
  proof
    assume a: "dec t1 token = Inr payload
        \<and> dict_get payload ''sub'' = Some (JStr name)
        \<and> dict_get payload ''role'' = Some (JStr (role u))
        \<and> get_user d name = Some u \<and> is_active u
        \<and> role u \<noteq> ''user'' \<and> role u \<noteq> ''admin''"
    then have "get_current_user (dec t1) d token = Inr u"
      by (simp add: get_current_user_accepts)
    then have "get_current_active_user (dec t1) d token = Inr u"
      using a by (simp add: get_current_active_user_active)
    then show "read_user_route dec d up st t1 t2 token
        = (Inl (HTTPException 403 (Text ''Not enough permissions'') []), [])"
      using a by (simp add: read_user_route_def)
  qed
  moreover have "?forbidden_admin"
  proof
    assume a: "dec t1 token = Inr payload
        \<and> dict_get payload ''sub'' = Some (JStr name)
        \<and> dict_get payload ''role'' = Some (JStr (role u))
        \<and> get_user d name = Some u \<and> is_active u \<and> role u \<noteq> ''admin''"
    then have "get_current_user (dec t1) d token = Inr u"
      by (simp add: get_current_user_accepts)
    then have "get_current_active_user (dec t1) d token = Inr u"
      using a by (simp add: get_current_active_user_active)
    then show "read_admin_route dec d up st t1 t2 token
        = (Inl (HTTPException 403 (Text ''Not enough permissions'') []), [])"
      using a by (simp add: read_admin_route_def)
  qed
  moreover have "?second_user"
  proof
    assume a: "dec t1 token = Inr payload
        \<and> dict_get payload ''sub'' = Some (JStr name)
        \<and> dict_get payload ''role'' = Some (JStr (role u))
        \<and> get_user d name = Some u \<and> is_active u
        \<and> (role u = ''user'' \<or> role u = ''admin'')
        \<and> dec t2 token = Inl x"
    then have "get_current_user (dec t1) d token = Inr u"
      by (simp add: get_current_user_accepts)
    then have "get_current_active_user (dec t1) d token = Inr u"
      using a by (simp add: get_current_active_user_active)
    then show "read_user_route dec d up st t1 t2 token
                 = (Inl (HTTPException 500 (Str x) []), [])"
      using a by (auto simp: read_user_route_def)
  qed
  moreover have "?second_admin"
  proof
    assume a: "dec t1 token = Inr payload
        \<and> dict_get payload ''sub'' = Some (JStr name)
        \<and> dict_get payload ''role'' = Some (JStr (role u))
        \<and> get_user d name = Some u \<and> is_active u \<and> role u = ''admin''
        \<and> dec t2 token = Inl x"
    then have "get_current_user (dec t1) d token = Inr u"
      by (simp add: get_current_user_accepts)
    then have "get_current_active_user (dec t1) d token = Inr u"
      using a by (simp add: get_current_active_user_active)
    then show "read_admin_route dec d up st t1 t2 token
                 = (Inl (HTTPException 500 (Str x) []), [])"
      using a by (simp add: read_admin_route_def)
  qed
  moreover have "?login"
    by (simp add: login_for_access_token_def)
  ultimately show ?thesis by blast
qed

text \<open>
  One request for each kind of failure: a token that does not decode, a token without a
  role claim, a role claim that is a number, an unknown user, a role mismatch, a deactivated
  user, an insufficient role on each route, a token that expires between the two decodes,
  a wrong password.
\<close>

theorem validation_failure_responses_witness:
  "read_user_route rejecting_dec example_db unreachable (Settings no_environment ''s'') 0 0
        (claims_of ''user'' ''user'') = (Inl credentials_exception, [])
   \<and> read_user_route plain_dec example_db unreachable (Settings no_environment ''s'') 0 0
        [''sub'' \<mapsto> JStr ''user''] = (Inl credentials_exception, [])
   \<and> read_user_route plain_dec example_db unreachable (Settings no_environment ''s'') 0 0
        [''sub'' \<mapsto> JStr ''user'', ''role'' \<mapsto> JInt 1] = (Inl credentials_exception, [])
   \<and> read_user_route plain_dec example_db unreachable (Settings no_environment ''s'') 0 0
        (claims_of ''nobody'' ''user'') = (Inl credentials_exception, [])
   \<and> read_admin_route plain_dec example_db unreachable (Settings no_environment ''s'') 0 0
        (claims_of ''user'' ''admin'') = (Inl credentials_exception, [])
   \<and> status_of (fst (read_user_route plain_dec example_db unreachable
                     (Settings no_environment ''s'') 0 0 (claims_of ''former'' ''user''))) = 400
   \<and> status_of (fst (read_user_route plain_dec example_db unreachable
                     (Settings no_environment ''s'') 0 0 (claims_of ''guest'' ''guest''))) = 403
   \<and> status_of (fst (read_admin_route plain_dec example_db unreachable
                     (Settings no_environment ''s'') 0 0 (claims_of ''user'' ''user''))) = 403
   \<and> read_user_route expiring_dec example_db unreachable (Settings no_environment ''s'') 0 10
        (claims_of ''user'' ''user'')
       = (Inl (HTTPException 500 (Str (JWTError Expired)) []), [])
   \<and> read_admin_route expiring_dec example_db unreachable (Settings no_environment ''s'') 0 10
        (claims_of ''admin'' ''admin'')
       = (Inl (HTTPException 500 (Str (JWTError Expired)) []), [])
   \<and> status_of (fst (login_for_access_token example_verify example_db unreachable
                     (Settings no_environment ''s'') plain_enc 0
                     (LoginData ''user'' ''wrong''))) = 401"
proof -
  let ?st = "Settings no_environment ''s''"
  note t = validation_failure_responses [where d = example_db and up = unreachable and st = ?st
      and ?t1.0 = 0 and verify = example_verify and enc = plain_enc and now = 0
      and password = "''wrong''"]
  note plain = plain_dec_def dict_get_def claims_of_def get_user_def example_db_def row_def
  have 1: "read_user_route rejecting_dec example_db unreachable ?st 0 0 (claims_of ''user'' ''user'')
             = (Inl credentials_exception, [])"
    by (rule t [where x = "JWTError BadSignature",
          THEN conjunct1, rule_format, THEN conjunct1])
       (simp add: rejecting_dec_def)
  have 2: "read_user_route plain_dec example_db unreachable ?st 0 0 [''sub'' \<mapsto> JStr ''user'']
             = (Inl credentials_exception, [])"
    by (rule t [where payload = "[''sub'' \<mapsto> JStr ''user'']",
          THEN conjunct2, THEN conjunct1, rule_format, THEN conjunct1])
       (simp add: plain)
  have 3: "read_user_route plain_dec example_db unreachable ?st 0 0
             [''sub'' \<mapsto> JStr ''user'', ''role'' \<mapsto> JInt 1] = (Inl credentials_exception, [])"
    by (rule t [where payload = "[''sub'' \<mapsto> JStr ''user'', ''role'' \<mapsto> JInt 1]"
            and s = "JStr ''user''" and r = "JInt 1",
          THEN conjunct2, THEN conjunct2, THEN conjunct1, rule_format, THEN conjunct1])
       (simp add: plain)
  have 4: "read_user_route plain_dec example_db unreachable ?st 0 0 (claims_of ''nobody'' ''user'')
             = (Inl credentials_exception, [])"
    by (rule t [where payload = "claims_of ''nobody'' ''user''" and name = "''nobody''"
            and r = "JStr ''user''",
          THEN conjunct2, THEN conjunct2, THEN conjunct2, THEN conjunct1, rule_format,
          THEN conjunct1])
       (simp add: plain)
  have 5: "read_admin_route plain_dec example_db unreachable ?st 0 0 (claims_of ''user'' ''admin'')
             = (Inl credentials_exception, [])"
    by (rule t [where payload = "claims_of ''user'' ''admin''" and name = "''user''"
            and r = "JStr ''admin''" and u = "row ''user'' ''user'' True",
          THEN conjunct2, THEN conjunct2, THEN conjunct2, THEN conjunct2, THEN conjunct1,
          rule_format, THEN conjunct2])
       (simp add: plain)
  have 6: "read_user_route plain_dec example_db unreachable ?st 0 0 (claims_of ''former'' ''user'')
             = (Inl (HTTPException 400 (Text ''Inactive user'') []), [])"
    by (rule t [where payload = "claims_of ''former'' ''user''" and name = "''former''"
            and u = "row ''former'' ''user'' False",
          THEN conjunct2, THEN conjunct2, THEN conjunct2, THEN conjunct2, THEN conjunct2,
          THEN conjunct1, rule_format, THEN conjunct1])
       (simp add: plain)
  have 7: "read_user_route plain_dec example_db unreachable ?st 0 0 (claims_of ''guest'' ''guest'')
             = (Inl (HTTPException 403 (Text ''Not enough permissions'') []), [])"
    by (rule t [where payload = "claims_of ''guest'' ''guest''" and name = "''guest''"
            and u = "row ''guest'' ''guest'' True",
          THEN conjunct2, THEN conjunct2, THEN conjunct2, THEN conjunct2, THEN conjunct2,
          THEN conjunct2, THEN conjunct1, rule_format])
       (simp add: plain)
  have 8: "read_admin_route plain_dec example_db unreachable ?st 0 0 (claims_of ''user'' ''user'')
             = (Inl (HTTPException 403 (Text ''Not enough permissions'') []), [])"
    by (rule t [where payload = "claims_of ''user'' ''user''" and name = "''user''"
            and u = "row ''user'' ''user'' True",
          THEN conjunct2, THEN conjunct2, THEN conjunct2, THEN conjunct2, THEN conjunct2,
          THEN conjunct2, THEN conjunct2, THEN conjunct1, rule_format])
       (simp add: plain)
  have 9: "read_user_route expiring_dec example_db unreachable ?st 0 10 (claims_of ''user'' ''user'')
             = (Inl (HTTPException 500 (Str (JWTError Expired)) []), [])"
    by (rule t [where payload = "claims_of ''user'' ''user''" and name = "''user''"
            and u = "row ''user'' ''user'' True",
          THEN conjunct2, THEN conjunct2, THEN conjunct2, THEN conjunct2, THEN conjunct2,
          THEN conjunct2, THEN conjunct2, THEN conjunct2, THEN conjunct1, rule_format])
       (simp add: expiring_dec_def plain)
  have 11: "read_admin_route expiring_dec example_db unreachable ?st 0 10 (claims_of ''admin'' ''admin'')
             = (Inl (HTTPException 500 (Str (JWTError Expired)) []), [])"
    by (rule t [where payload = "claims_of ''admin'' ''admin''" and name = "''admin''"
            and u = "row ''admin'' ''admin'' True",
          THEN conjunct2, THEN conjunct2, THEN conjunct2, THEN conjunct2, THEN conjunct2,
          THEN conjunct2, THEN conjunct2, THEN conjunct2, THEN conjunct2, THEN conjunct1,
          rule_format])
       (simp add: expiring_dec_def plain)
  have 10: "login_for_access_token example_verify example_db unreachable ?st plain_enc 0
             (LoginData ''user'' ''wrong'')
           = (Inl (HTTPException 401 (Text ''Incorrect username or password'')
                  [(''WWW-Authenticate'', ''Bearer'')]), [])"
    by (rule t [THEN conjunct2, THEN conjunct2, THEN conjunct2, THEN conjunct2, THEN conjunct2,
          THEN conjunct2, THEN conjunct2, THEN conjunct2, THEN conjunct2, THEN conjunct2,
          rule_format])
       (simp add: authenticate_user_def get_user_def example_db_def row_def example_verify_def)
  show ?thesis by (simp add: 1 2 3 4 5 6 7 8 9 10 11)
qed

section \<open>Login\<close>

text \<open>
  Claim C4. \<^verbatim>\<open>POST /token\<close> answers 401 when the username and password match no active
  user. When they do match, the answer is never 401: an unreachable upstream is answered
  with 500 and the text of the transport error, and an upstream reply of any status other
  than 200 is answered with 500 as well.
\<close>

theorem login_failure_statuses:
  "(authenticate_user verify d name password = None \<longrightarrow>
      status_of (fst (login_for_access_token verify d up st enc now (LoginData name password)))
        = 401)
   \<and> (authenticate_user verify d name password = Some u \<longrightarrow>
        status_of (fst (login_for_access_token verify d up st enc now (LoginData name password)))
          \<noteq> 401
      \<and> (up \<lparr>http_method = POST, url = FAKE_API_BASE_URL st @ ''/token'',
              params = [(''username'', name), (''password'', password)], headers = []\<rparr>
            = Inl e \<longrightarrow>
          fst (login_for_access_token verify d up st enc now (LoginData name password))
            = Inl (HTTPException 500 (Str e) []))
      \<and> (up \<lparr>http_method = POST, url = FAKE_API_BASE_URL st @ ''/token'',
              params = [(''username'', name), (''password'', password)], headers = []\<rparr>
            = Inr resp \<and> status_code resp \<noteq> 200 \<longrightarrow>
          status_of (fst (login_for_access_token verify d up st enc now
                            (LoginData name password))) = 500))"
proof (intro conjI impI)
  assume "authenticate_user verify d name password = None"
  then show "status_of (fst (login_for_access_token verify d up st enc now
                               (LoginData name password))) = 401"
    by (simp add: login_for_access_token_def)
next
  assume "authenticate_user verify d name password = Some u"
  then show "status_of (fst (login_for_access_token verify d up st enc now
                               (LoginData name password))) \<noteq> 401"
    by (simp add: login_for_access_token_def)
next
  assume "authenticate_user verify d name password = Some u"
    and "up \<lparr>http_method = POST, url = FAKE_API_BASE_URL st @ ''/token'',
              params = [(''username'', name), (''password'', password)], headers = []\<rparr>
            = Inl e"
  then show "fst (login_for_access_token verify d up st enc now (LoginData name password))
            = Inl (HTTPException 500 (Str e) [])"
    by (simp add: login_for_access_token_def)
next
  assume "authenticate_user verify d name password = Some u"
    and "up \<lparr>http_method = POST, url = FAKE_API_BASE_URL st @ ''/token'',
              params = [(''username'', name), (''password'', password)], headers = []\<rparr>
            = Inr resp \<and> status_code resp \<noteq> 200"
  then show "status_of (fst (login_for_access_token verify d up st enc now
                            (LoginData name password))) = 500"
    by (simp add: login_for_access_token_def)
qed


text \<open>
  A wrong password; the right password with an unreachable upstream; the right password
  with an upstream that answers 401.
\<close>

lemma user_login_ok:
  "authenticate_user example_verify example_db ''user'' ''user'' = Some (row ''user'' ''user'' True)"
  by (simp add: authenticate_user_def get_user_def example_db_def row_def example_verify_def)

theorem login_failure_statuses_witness:
  "authenticate_user example_verify example_db ''user'' ''wrong'' = None
   \<and> status_of (fst (login_for_access_token example_verify example_db unreachable
                     (Settings no_environment ''s'') plain_enc 0
                     (LoginData ''user'' ''wrong''))) = 401
   \<and> authenticate_user example_verify example_db ''user'' ''user''
       = Some (row ''user'' ''user'' True)
   \<and> fst (login_for_access_token example_verify example_db unreachable
            (Settings no_environment ''s'') plain_enc 0 (LoginData ''user'' ''user''))
       = Inl (HTTPException 500 (Str (PyError ''ConnectError'')) [])
   \<and> status_of (fst (login_for_access_token example_verify example_db (answering 401)
                     (Settings no_environment ''s'') plain_enc 0
                     (LoginData ''user'' ''user''))) = 500"
proof -
  let ?st = "Settings no_environment ''s''"
  let ?resp = "\<lparr>status_code = 401, body_text = ''{}'',
                 json = Inr (Obj [''access_token'' \<mapsto> JStr ''upstream-credential''])\<rparr>"
  have wrong: "authenticate_user example_verify example_db ''user'' ''wrong'' = None"
    by (simp add: authenticate_user_def get_user_def example_db_def row_def example_verify_def)
  have down: "unreachable \<lparr>http_method = POST, url = FAKE_API_BASE_URL ?st @ ''/token'',
              params = [(''username'', ''user''), (''password'', ''user'')], headers = []\<rparr>
            = Inl (PyError ''ConnectError'')"
    by (simp add: unreachable_def)
  have refused: "answering 401 \<lparr>http_method = POST, url = FAKE_API_BASE_URL ?st @ ''/token'',
              params = [(''username'', ''user''), (''password'', ''user'')], headers = []\<rparr>
            = Inr ?resp \<and> status_code ?resp \<noteq> 200"
    by (simp add: answering_def)
  note t = login_failure_statuses
  from t [of example_verify example_db "''user''" "''wrong''" unreachable ?st plain_enc 0
            "row ''user'' ''user'' True" "PyError ''ConnectError''" ?resp] wrong
  have 1: "status_of (fst (login_for_access_token example_verify example_db unreachable ?st
                             plain_enc 0 (LoginData ''user'' ''wrong''))) = 401"
    by blast
  from t [of example_verify example_db "''user''" "''user''" unreachable ?st plain_enc 0
            "row ''user'' ''user'' True" "PyError ''ConnectError''" ?resp] user_login_ok down
  have 2: "fst (login_for_access_token example_verify example_db unreachable ?st plain_enc 0
                  (LoginData ''user'' ''user''))
           = Inl (HTTPException 500 (Str (PyError ''ConnectError'')) [])"
    by blast
  from t [of example_verify example_db "''user''" "''user''" "answering 401" ?st plain_enc 0
            "row ''user'' ''user'' True" "PyError ''ConnectError''" ?resp] user_login_ok refused
  have 3: "status_of (fst (login_for_access_token example_verify example_db (answering 401) ?st
                             plain_enc 0 (LoginData ''user'' ''user''))) = 500"
    by blast
  from wrong 1 user_login_ok 2 3 show ?thesis by blast
qed

section \<open>Proxying\<close>

text \<open>
  Claim C8 says that every authenticated, authorized request is forwarded and that an
  upstream failure is answered with 500. For the token of an administrator without the
  claim \<^verbatim>\<open>ext_token\<close> nothing is forwarded, and an upstream reply of status 503 with a
  body that parses is answered with 200.
\<close>

lemma admin_token_authenticated:
  "get_current_active_user (plain_dec 0) example_db (claims_of ''admin'' ''admin'')
     = Inr (row ''admin'' ''admin'' True)"
  by (simp add: get_current_active_user_def get_current_user_def plain_dec_def claims_of_def
      dict_get_def get_user_def example_db_def row_def)

theorem upstream_failure_counterexample:
  "get_current_active_user (plain_dec 0) example_db [''sub'' \<mapsto> JStr ''admin'', ''role'' \<mapsto> JStr ''admin'']
     = Inr (row ''admin'' ''admin'' True)
   \<and> snd (read_admin_route plain_dec example_db (answering 200) (Settings no_environment ''s'') 0 0
            [''sub'' \<mapsto> JStr ''admin'', ''role'' \<mapsto> JStr ''admin'']) = []
   \<and> get_current_active_user (plain_dec 0) example_db (claims_of ''admin'' ''admin'')
     = Inr (row ''admin'' ''admin'' True)
   \<and> status_of (fst (read_user_route plain_dec example_db (answering 503)
                      (Settings no_environment ''s'') 0 0 (claims_of ''admin'' ''admin''))) = 200"
proof -
  let ?bare = "[''sub'' \<mapsto> JStr ''admin'', ''role'' \<mapsto> JStr ''admin'']"
  have a: "get_current_active_user (plain_dec 0) example_db ?bare = Inr (row ''admin'' ''admin'' True)"
    by (simp add: get_current_active_user_def get_current_user_def plain_dec_def
        dict_get_def get_user_def example_db_def row_def)
  have "snd (read_admin_route plain_dec example_db (answering 200) (Settings no_environment ''s'')
               0 0 ?bare) = []"
    by (simp add: read_admin_route_def a row_def) (simp add: plain_dec_def dict_get_def)
  moreover
  have "status_of (fst (read_user_route plain_dec example_db (answering 503)
                      (Settings no_environment ''s'') 0 0 (claims_of ''admin'' ''admin''))) = 200"
    by (simp add: read_user_route_def admin_token_authenticated row_def)
       (simp add: plain_dec_def dict_get_def claims_of_def answering_def)
  ultimately show ?thesis
    using a admin_token_authenticated by simp
qed

text \<open>
  Claim C8, amended. \<^verbatim>\<open>POST /token\<close> embeds the \<^verbatim>\<open>access_token\<close> of the upstream's reply
  in the session token as the claim \<^verbatim>\<open>ext_token\<close>. For an authenticated request of an
  authorized role whose token, decoded again by the route, carries a non-empty string as
  that claim, \<^verbatim>\<open>GET /user\<close> (and \<^verbatim>\<open>GET /admin\<close>) sends exactly one request: a GET to the
  upstream path \<^verbatim>\<open>/user\<close> (\<^verbatim>\<open>/admin\<close>) with the header \<^verbatim>\<open>Authorization: Bearer\<close> and
  that string. When the request raises, or the body of the reply does not parse, the
  answer is 500 with the text of the exception; a reply whose body parses is returned as
  it is, whatever its status code.
\<close>

theorem upstream_forwarding:
  assumes "get_current_active_user (dec t1) d token = Inr u"
    and "dec t2 token = Inr payload"
    and "dict_get payload ''ext_token'' = Some (JStr credential)"
    and "credential \<noteq> []"
  shows "(role u = ''user'' \<or> role u = ''admin'' \<longrightarrow>
            snd (read_user_route dec d up st t1 t2 token)
              = [\<lparr>http_method = GET, url = FAKE_API_BASE_URL st @ ''/user'', params = [],
                   headers = [(''Authorization'', ''Bearer '' @ credential)]\<rparr>]
          \<and> (up \<lparr>http_method = GET, url = FAKE_API_BASE_URL st @ ''/user'', params = [],
                   headers = [(''Authorization'', ''Bearer '' @ credential)]\<rparr> = Inl e \<longrightarrow>
              fst (read_user_route dec d up st t1 t2 token)
                = Inl (HTTPException 500 (Str e) []))
          \<and> (up \<lparr>http_method = GET, url = FAKE_API_BASE_URL st @ ''/user'', params = [],
                   headers = [(''Authorization'', ''Bearer '' @ credential)]\<rparr> = Inr resp
              \<and> json resp = Inl e \<longrightarrow>
              fst (read_user_route dec d up st t1 t2 token)
                = Inl (HTTPException 500 (Str e) []))
          \<and> (up \<lparr>http_method = GET, url = FAKE_API_BASE_URL st @ ''/user'', params = [],
                   headers = [(''Authorization'', ''Bearer '' @ credential)]\<rparr> = Inr resp
              \<and> json resp = Inr doc \<longrightarrow>
              fst (read_user_route dec d up st t1 t2 token) = Inr doc))
       \<and> (role u = ''admin'' \<longrightarrow>
            snd (read_admin_route dec d up st t1 t2 token)
              = [\<lparr>http_method = GET, url = FAKE_API_BASE_URL st @ ''/admin'', params = [],
                   headers = [(''Authorization'', ''Bearer '' @ credential)]\<rparr>]
          \<and> (up \<lparr>http_method = GET, url = FAKE_API_BASE_URL st @ ''/admin'', params = [],
                   headers = [(''Authorization'', ''Bearer '' @ credential)]\<rparr> = Inl e \<longrightarrow>
              fst (read_admin_route dec d up st t1 t2 token)
                = Inl (HTTPException 500 (Str e) []))
          \<and> (up \<lparr>http_method = GET, url = FAKE_API_BASE_URL st @ ''/admin'', params = [],
                   headers = [(''Authorization'', ''Bearer '' @ credential)]\<rparr> = Inr resp
              \<and> json resp = Inl e \<longrightarrow>
              fst (read_admin_route dec d up st t1 t2 token)
                = Inl (HTTPException 500 (Str e) []))
          \<and> (up \<lparr>http_method = GET, url = FAKE_API_BASE_URL st @ ''/admin'', params = [],
                   headers = [(''Authorization'', ''Bearer '' @ credential)]\<rparr> = Inr resp
              \<and> json resp = Inr doc \<longrightarrow>
              fst (read_admin_route dec d up st t1 t2 token) = Inr doc))
       \<and> (authenticate_user verify d name password = Some account
          \<and> up \<lparr>http_method = POST, url = FAKE_API_BASE_URL st @ ''/token'',
                 params = [(''username'', name), (''password'', password)], headers = []\<rparr>
              = Inr resp
          \<and> status_code resp = 200 \<and> json resp = Inr doc
          \<and> subscript doc ''access_token'' = Inr issued
          \<and> timedelta_minutes (ACCESS_TOKEN_EXPIRE_MINUTES st) = Inr lifetime \<longrightarrow>
            login_for_access_token verify d up st enc now (LoginData name password)
              = (Inr (Token (enc now [''sub'' \<mapsto> JStr (username account),
                                      ''role'' \<mapsto> JStr (role account),
                                      ''ext_token'' \<mapsto> issued] lifetime)
                        ''bearer'' (role account)),
                 [\<lparr>http_method = POST, url = FAKE_API_BASE_URL st @ ''/token'',
                    params = [(''username'', name), (''password'', password)],
                    headers = []\<rparr>]))"
  (is "?user \<and> ?admin \<and> ?login")
proof -
  have x: "truthy (JStr credential)"
    using assms(4) by simp
  have "?user"
    using assms(1-3) x
    by (auto simp: read_user_route_def Let_def split: sum.splits)
  moreover have "?admin"
    using assms(1-3) x
    by (auto simp: read_admin_route_def Let_def split: sum.splits)
  moreover have "?login"
    by (auto simp: login_for_access_token_def Let_def)
  ultimately show ?thesis by blast
qed


text \<open>
  The token of an administrator with an unreachable upstream on both routes, with a reply
  that does not parse, and with a reply of status 503; and the token that a login embeds.
\<close>

theorem upstream_forwarding_witness:
  "read_user_route plain_dec example_db unreachable (Settings no_environment ''s'') 0 0
        (claims_of ''admin'' ''admin'')
     = (Inl (HTTPException 500 (Str (PyError ''ConnectError'')) []),
        [\<lparr>http_method = GET, url = ''https://api-onecloud.multicloud.tivit.com/fake/user'',
           params = [], headers = [(''Authorization'', ''Bearer upstream-credential'')]\<rparr>])
   \<and> read_admin_route plain_dec example_db unreachable (Settings no_environment ''s'') 0 0
        (claims_of ''admin'' ''admin'')
     = (Inl (HTTPException 500 (Str (PyError ''ConnectError'')) []),
        [\<lparr>http_method = GET, url = ''https://api-onecloud.multicloud.tivit.com/fake/admin'',
           params = [], headers = [(''Authorization'', ''Bearer upstream-credential'')]\<rparr>])
   \<and> fst (read_admin_route plain_dec example_db garbled (Settings no_environment ''s'') 0 0
        (claims_of ''admin'' ''admin''))
     = Inl (HTTPException 500 (Str (PyError ''JSONDecodeError'')) [])
   \<and> fst (read_admin_route plain_dec example_db (answering 503) (Settings no_environment ''s'') 0 0
        (claims_of ''admin'' ''admin''))
     = Inr (Obj [''access_token'' \<mapsto> JStr ''upstream-credential''])
   \<and> fst (login_for_access_token example_verify example_db (answering 200)
             (Settings no_environment ''s'') plain_enc 0 (LoginData ''user'' ''user''))
     = Inr (Token (claims_of ''user'' ''user'') ''bearer'' ''user'')"
proof -
  let ?st = "Settings no_environment ''s''"
  let ?tok = "claims_of ''admin'' ''admin''"
  let ?base = "''https://api-onecloud.multicloud.tivit.com/fake''"
  let ?doc = "Obj [''access_token'' \<mapsto> JStr ''upstream-credential'']"
  have 2: "plain_dec 0 ?tok = Inr ?tok"
    by (simp add: plain_dec_def)
  have 3: "dict_get ?tok ''ext_token'' = Some (JStr ''upstream-credential'')"
    by (simp add: claims_of_def dict_get_def)
  have 4: "''upstream-credential'' \<noteq> []"
    by simp
  have r: "role (row ''admin'' ''admin'' True) = ''admin''"
    by (simp add: row_def)
  have b: "FAKE_API_BASE_URL ?st = ?base"
    by (simp add: Settings_def no_environment_def or_default_def)
  note t = upstream_forwarding [of plain_dec 0 example_db ?tok _ 0 ?tok "''upstream-credential''",
      OF admin_token_authenticated 2 3 4, where st = ?st]
  note user = t [THEN conjunct1, rule_format, OF disjI2, OF r]
  note admin = t [THEN conjunct2, THEN conjunct1, rule_format, OF r]
  have down: "unreachable req = Inl (PyError ''ConnectError'')" for req
    by (simp add: unreachable_def)
  have u1: "snd (read_user_route plain_dec example_db unreachable ?st 0 0 ?tok)
          = [\<lparr>http_method = GET, url = ?base @ ''/user'', params = [],
               headers = [(''Authorization'', ''Bearer '' @ ''upstream-credential'')]\<rparr>]"
    using user [where up = unreachable, THEN conjunct1] by (simp only: b)
  have u2: "fst (read_user_route plain_dec example_db unreachable ?st 0 0 ?tok)
          = Inl (HTTPException 500 (Str (PyError ''ConnectError'')) [])"
    by (rule user [where up = unreachable, THEN conjunct2, THEN conjunct1, rule_format])
       (rule down)
  have a1: "snd (read_admin_route plain_dec example_db unreachable ?st 0 0 ?tok)
          = [\<lparr>http_method = GET, url = ?base @ ''/admin'', params = [],
               headers = [(''Authorization'', ''Bearer '' @ ''upstream-credential'')]\<rparr>]"
    using admin [where up = unreachable, THEN conjunct1] by (simp only: b)
  have a2: "fst (read_admin_route plain_dec example_db unreachable ?st 0 0 ?tok)
          = Inl (HTTPException 500 (Str (PyError ''ConnectError'')) [])"
    by (rule admin [where up = unreachable, THEN conjunct2, THEN conjunct1, rule_format])
       (rule down)
  have a3: "fst (read_admin_route plain_dec example_db garbled ?st 0 0 ?tok)
          = Inl (HTTPException 500 (Str (PyError ''JSONDecodeError'')) [])"
    by (rule admin [where up = garbled
          and resp = "\<lparr>status_code = 200, body_text = ''<html>'',
                       json = Inl (PyError ''JSONDecodeError'')\<rparr>", THEN conjunct2, THEN conjunct2, THEN conjunct1,
          rule_format])
       (simp add: garbled_def)
  have a4: "fst (read_admin_route plain_dec example_db (answering 503) ?st 0 0 ?tok) = Inr ?doc"
    by (rule admin [where up = "answering 503"
          and resp = "\<lparr>status_code = 503, body_text = ''{}'', json = Inr ?doc\<rparr>",
          THEN conjunct2, THEN conjunct2, THEN conjunct2,
          rule_format])
       (simp add: answering_def)
  have l: "login_for_access_token example_verify example_db (answering 200) ?st plain_enc 0
             (LoginData ''user'' ''user'')
           = (Inr (Token (plain_enc 0 [''sub'' \<mapsto> JStr (username (row ''user'' ''user'' True)),
                                      ''role'' \<mapsto> JStr (role (row ''user'' ''user'' True)),
                                      ''ext_token'' \<mapsto> JStr ''upstream-credential''] (60 * 30))
                        ''bearer'' (role (row ''user'' ''user'' True))),
                 [\<lparr>http_method = POST, url = FAKE_API_BASE_URL ?st @ ''/token'',
                    params = [(''username'', ''user''), (''password'', ''user'')],
                    headers = []\<rparr>])"
    by (rule t [where up = "answering 200"
          and resp = "\<lparr>status_code = 200, body_text = ''{}'', json = Inr ?doc\<rparr>"
          and doc = ?doc, THEN conjunct2, THEN conjunct2, rule_format])
       (simp add: user_login_ok answering_def timedelta_minutes_def Settings_def
          no_environment_def or_default_def)
  have l': "fst (login_for_access_token example_verify example_db (answering 200) ?st plain_enc 0
             (LoginData ''user'' ''user''))
           = Inr (Token (claims_of ''user'' ''user'') ''bearer'' ''user'')"
    by (simp add: l plain_enc_def row_def claims_of_def)
  show ?thesis
    using u1 u2 a1 a2 a3 a4 l' by (simp add: prod_eq_iff)
qed




section \<open>The token codec: round trip, tampering, expiry, secrets\<close>

lemma decode_validly_signed:
  assumes "signature_seg token = sign secret (claims_seg token)"
    and "de (claims_seg token) = Some payload"
    and "payload ''exp'' = Some (JInt expires_at)"
  shows "decode_access_token de sign secret now token
           = (if now \<ge> expires_at then Inl (JWTError Expired) else Inr payload)"
  using assms by (simp add: decode_access_token_def)

lemma decode_create:
  assumes "de (ser (data(''iat'' \<mapsto> JInt now, ''exp'' \<mapsto> JInt (now + ttl))))
             = Some (data(''iat'' \<mapsto> JInt now, ''exp'' \<mapsto> JInt (now + ttl)))"
  shows "decode_access_token de sign secret now'
           (create_access_token ser sign secret now data ttl)
         = (if now' \<ge> now + ttl then Inl (JWTError Expired)
            else Inr (data(''iat'' \<mapsto> JInt now, ''exp'' \<mapsto> JInt (now + ttl))))"
  using assms by (simp add: decode_access_token_def create_access_token_def Let_def)


lemma text_codec_example:
  "text_de (text_ser ((claims_of ''user'' ''user'')(''iat'' \<mapsto> JInt 100, ''exp'' \<mapsto> JInt 1900)))
     = Some ((claims_of ''user'' ''user'')(''iat'' \<mapsto> JInt 100, ''exp'' \<mapsto> JInt 1900))"
proof -
  have "text_ser ((claims_of ''user'' ''user'')(''iat'' \<mapsto> JInt 100, ''exp'' \<mapsto> JInt 1900))
          = ''suser|suser|supstream-credential|i100|i1900''"
    by code_simp
  moreover have "text_de ''suser|suser|supstream-credential|i100|i1900''
          = Some ((claims_of ''user'' ''user'')(''iat'' \<mapsto> JInt 100, ''exp'' \<mapsto> JInt 1900))"
    by (simp add: text_de_def parse_claim_def parse_int_def claims_of_def)
  ultimately show ?thesis by simp
qed

lemma text_codec_example_0:
  "text_de (text_ser ((claims_of ''user'' ''user'')(''iat'' \<mapsto> JInt 100, ''exp'' \<mapsto> JInt 100)))
     = Some ((claims_of ''user'' ''user'')(''iat'' \<mapsto> JInt 100, ''exp'' \<mapsto> JInt 100))"
proof -
  have "text_ser ((claims_of ''user'' ''user'')(''iat'' \<mapsto> JInt 100, ''exp'' \<mapsto> JInt 100))
          = ''suser|suser|supstream-credential|i100|i100''"
    by code_simp
  moreover have "text_de ''suser|suser|supstream-credential|i100|i100''
          = Some ((claims_of ''user'' ''user'')(''iat'' \<mapsto> JInt 100, ''exp'' \<mapsto> JInt 100))"
    by (simp add: text_de_def parse_claim_def parse_int_def claims_of_def)
  ultimately show ?thesis by simp
qed

lemma valid_signature:
  "decode_access_token de sign secret now token = Inr payload \<Longrightarrow>
   signature_seg token = sign secret (claims_seg token)"
  by (auto simp: decode_access_token_def split: if_splits)

lemma bad_signature:
  "signature_seg token \<noteq> sign secret (claims_seg token) \<Longrightarrow>
   decode_access_token de sign secret now token = Inl (JWTError BadSignature)"
  by (simp add: decode_access_token_def)

lemma issued_token_eq:
  "issued_token secret now ttl =
     \<lparr>claims_seg = (claims_of ''user'' ''user'')(''iat'' \<mapsto> JInt now, ''exp'' \<mapsto> JInt (now + ttl)),
      signature_seg = secret @ ''.user''\<rparr>"
  by (simp add: issued_token_def create_access_token_def plain_ser_def keyed_sign_def
      claims_of_def Let_def)

text \<open>
  Claim C5. Round trip: for any claims and any lifetime, decoding the token that
  \<^verbatim>\<open>create_access_token\<close> issues, under the same secret and before the expiry, succeeds and
  yields the claims with the two timestamps; the subject, the role and the upstream
  credential come back unchanged. The serialisation is asked to give back the claims of
  this token, not those of every token.
\<close>

theorem decode_encode_round_trip:
  assumes "de (ser (data(''iat'' \<mapsto> JInt now, ''exp'' \<mapsto> JInt (now + ttl))))
             = Some (data(''iat'' \<mapsto> JInt now, ''exp'' \<mapsto> JInt (now + ttl)))"
    and "now' < now + ttl"
  shows "decode_access_token de sign secret now'
           (create_access_token ser sign secret now data ttl)
         = Inr (data(''iat'' \<mapsto> JInt now, ''exp'' \<mapsto> JInt (now + ttl)))
       \<and> (data(''iat'' \<mapsto> JInt now, ''exp'' \<mapsto> JInt (now + ttl))) ''sub'' = data ''sub''
       \<and> (data(''iat'' \<mapsto> JInt now, ''exp'' \<mapsto> JInt (now + ttl))) ''role'' = data ''role''
       \<and> (data(''iat'' \<mapsto> JInt now, ''exp'' \<mapsto> JInt (now + ttl))) ''ext_token''
           = data ''ext_token''"
  using assms by (simp add: decode_create)

text \<open>
  A token of 1800 seconds in the text serialisation, decoded at the second of its
  issuance.
\<close>

theorem decode_encode_round_trip_witness:
  "text_de (text_ser ((claims_of ''user'' ''user'')(''iat'' \<mapsto> JInt 100, ''exp'' \<mapsto> JInt 1900)))
     = Some ((claims_of ''user'' ''user'')(''iat'' \<mapsto> JInt 100, ''exp'' \<mapsto> JInt 1900))
   \<and> decode_access_token text_de prefix_sign ''k'' 100
        (create_access_token text_ser prefix_sign ''k'' 100 (claims_of ''user'' ''user'') 1800)
       = Inr ((claims_of ''user'' ''user'')(''iat'' \<mapsto> JInt 100, ''exp'' \<mapsto> JInt 1900))
   \<and> ((claims_of ''user'' ''user'')(''iat'' \<mapsto> JInt 100, ''exp'' \<mapsto> JInt 1900)) ''ext_token''
       = Some (JStr ''upstream-credential'')"
proof -
  have h: "text_de (text_ser ((claims_of ''user'' ''user'')
              (''iat'' \<mapsto> JInt 100, ''exp'' \<mapsto> JInt (100 + 1800))))
           = Some ((claims_of ''user'' ''user'')(''iat'' \<mapsto> JInt 100, ''exp'' \<mapsto> JInt (100 + 1800)))"
    using text_codec_example by simp
  have l: "(100::int) < 100 + 1800" by simp
  from decode_encode_round_trip [of text_de text_ser "claims_of ''user'' ''user''" 100 1800 100,
         OF h l, of prefix_sign "''k''"] text_codec_example
  show ?thesis
    by (simp add: claims_of_def)
qed

text \<open>
  Claim C6. Tamper detection: when one byte of the signature segment of a valid token is
  replaced by another byte, decoding fails with \<open>BadSignature\<close>, at any time, and
  \<^verbatim>\<open>get_current_user\<close> raises the 401 exception.
\<close>

theorem tampered_signature_rejected:
  assumes "decode_access_token de sign secret now token = Inr payload"
    and "i < length (signature_seg token)"
    and "b \<noteq> signature_seg token ! i"
  shows "decode_access_token de sign secret now'
           (token\<lparr>signature_seg := (signature_seg token)[i := b]\<rparr>)
         = Inl (JWTError BadSignature)
       \<and> get_current_user (decode_access_token de sign secret now') d
           (token\<lparr>signature_seg := (signature_seg token)[i := b]\<rparr>)
         = Inl credentials_exception"
proof -
  let ?t = "token\<lparr>signature_seg := (signature_seg token)[i := b]\<rparr>"
  have "(signature_seg token)[i := b] ! i = b"
    using assms(2) by simp
  then have "(signature_seg token)[i := b] \<noteq> signature_seg token"
    using assms(3) by metis
  then have "signature_seg ?t \<noteq> sign secret (claims_seg ?t)"
    using valid_signature [OF assms(1)] by simp
  then have "decode_access_token de sign secret now' ?t = Inl (JWTError BadSignature)"
    by (rule bad_signature)
  then show ?thesis
    by (simp add: get_current_user_def)
qed

text \<open>The last byte of the signature of an issued token, changed.\<close>

theorem tampered_signature_rejected_witness:
  "decode_access_token plain_de keyed_sign ''k'' 100 (issued_token ''k'' 100 1800)
     = Inr ((claims_of ''user'' ''user'')(''iat'' \<mapsto> JInt 100, ''exp'' \<mapsto> JInt 1900))
   \<and> signature_seg (issued_token ''k'' 100 1800) = ''k.user''
   \<and> decode_access_token plain_de keyed_sign ''k'' 100
        ((issued_token ''k'' 100 1800)\<lparr>signature_seg := ''k.usez''\<rparr>)
     = Inl (JWTError BadSignature)"
proof -
  let ?t = "issued_token ''k'' 100 1800"
  have s: "signature_seg ?t = ''k.user''"
    by (simp add: issued_token_eq)
  have v: "decode_access_token plain_de keyed_sign ''k'' 100 ?t
             = Inr ((claims_of ''user'' ''user'')(''iat'' \<mapsto> JInt 100, ''exp'' \<mapsto> JInt 1900))"
    by (simp add: issued_token_eq decode_access_token_def keyed_sign_def plain_de_def
        claims_of_def)
  have i: "5 < length (signature_seg ?t)"
    by (simp add: s)
  have b: "CHR ''z'' \<noteq> signature_seg ?t ! 5"
    by (simp add: s)
  have u: "(signature_seg ?t)[5 := CHR ''z''] = ''k.usez''"
    by (simp add: s)
  from tampered_signature_rejected [OF v i b, of 100 example_db] s v u
  show ?thesis by simp
qed

text \<open>
  Claim C7. Expiry: decoding an issued token at or after its issuance time plus its
  lifetime fails with \<open>Expired\<close>; with lifetime 0, at the issuance time and at any later
  time. More generally a validly signed token is \<open>Expired\<close> whenever the clock is at or
  past its claim \<^verbatim>\<open>exp\<close>.
\<close>

theorem expired_token_rejected:
  "(de (ser (data(''iat'' \<mapsto> JInt now, ''exp'' \<mapsto> JInt (now + ttl))))
        = Some (data(''iat'' \<mapsto> JInt now, ''exp'' \<mapsto> JInt (now + ttl)))
      \<and> now + ttl \<le> now' \<longrightarrow>
      decode_access_token de sign secret now'
        (create_access_token ser sign secret now data ttl) = Inl (JWTError Expired))
   \<and> (de (ser (data(''iat'' \<mapsto> JInt now, ''exp'' \<mapsto> JInt now)))
        = Some (data(''iat'' \<mapsto> JInt now, ''exp'' \<mapsto> JInt now))
      \<and> now \<le> now' \<longrightarrow>
      decode_access_token de sign secret now'
        (create_access_token ser sign secret now data 0) = Inl (JWTError Expired))
   \<and> (signature_seg token = sign secret (claims_seg token)
      \<and> de (claims_seg token) = Some payload
      \<and> payload ''exp'' = Some (JInt expires_at) \<and> expires_at \<le> now' \<longrightarrow>
      decode_access_token de sign secret now' token = Inl (JWTError Expired))"
proof (intro conjI impI)
  assume "de (ser (data(''iat'' \<mapsto> JInt now, ''exp'' \<mapsto> JInt (now + ttl))))
        = Some (data(''iat'' \<mapsto> JInt now, ''exp'' \<mapsto> JInt (now + ttl)))
      \<and> now + ttl \<le> now'"
  then show "decode_access_token de sign secret now'
        (create_access_token ser sign secret now data ttl) = Inl (JWTError Expired)"
    by (simp add: decode_create)
next
  assume a: "de (ser (data(''iat'' \<mapsto> JInt now, ''exp'' \<mapsto> JInt now)))
        = Some (data(''iat'' \<mapsto> JInt now, ''exp'' \<mapsto> JInt now))
      \<and> now \<le> now'"
  then have "de (ser (data(''iat'' \<mapsto> JInt now, ''exp'' \<mapsto> JInt (now + 0))))
        = Some (data(''iat'' \<mapsto> JInt now, ''exp'' \<mapsto> JInt (now + 0)))"
    by simp
  from decode_create [of de ser data now 0, OF this, of sign secret now'] a
  show "decode_access_token de sign secret now'
        (create_access_token ser sign secret now data 0) = Inl (JWTError Expired)"
    by simp
next
  assume "signature_seg token = sign secret (claims_seg token)
      \<and> de (claims_seg token) = Some payload
      \<and> payload ''exp'' = Some (JInt expires_at) \<and> expires_at \<le> now'"
  then show "decode_access_token de sign secret now' token = Inl (JWTError Expired)"
    by (simp add: decode_validly_signed)
qed


text \<open>
  In the text serialisation: a token of 1800 seconds at its expiry, a token of lifetime 0
  at its issuance, and the segments of that token one second later.
\<close>

theorem expired_token_rejected_witness:
  "decode_access_token text_de prefix_sign ''k'' 1900
     (create_access_token text_ser prefix_sign ''k'' 100 (claims_of ''user'' ''user'') 1800)
     = Inl (JWTError Expired)
   \<and> decode_access_token text_de prefix_sign ''k'' 100
       (create_access_token text_ser prefix_sign ''k'' 100 (claims_of ''user'' ''user'') 0)
     = Inl (JWTError Expired)
   \<and> decode_access_token text_de prefix_sign ''k'' 101
       \<lparr>claims_seg = ''suser|suser|supstream-credential|i100|i100'',
        signature_seg = ''k.......001i|001''\<rparr>
     = Inl (JWTError Expired)"
proof -
  let ?c = "claims_of ''user'' ''user''"
  note t = expired_token_rejected [where de = text_de and ser = text_ser and sign = prefix_sign
      and secret = "''k''" and data = ?c and now = 100]
  have 1: "decode_access_token text_de prefix_sign ''k'' 1900
             (create_access_token text_ser prefix_sign ''k'' 100 ?c 1800) = Inl (JWTError Expired)"
    by (rule t [where ttl = 1800, THEN conjunct1, rule_format])
       (use text_codec_example in simp)
  have 2: "decode_access_token text_de prefix_sign ''k'' 100
             (create_access_token text_ser prefix_sign ''k'' 100 ?c 0) = Inl (JWTError Expired)"
    by (rule t [THEN conjunct2, THEN conjunct1, rule_format])
       (use text_codec_example_0 in simp)
  have 3: "decode_access_token text_de prefix_sign ''k'' 101
             \<lparr>claims_seg = ''suser|suser|supstream-credential|i100|i100'',
              signature_seg = ''k.......001i|001''\<rparr> = Inl (JWTError Expired)"
    by (rule t [where payload = "?c(''iat'' \<mapsto> JInt 100, ''exp'' \<mapsto> JInt 100)"
          and expires_at = 100, THEN conjunct2, THEN conjunct2, rule_format])
       (simp add: prefix_sign_def text_de_def parse_claim_def parse_int_def claims_of_def)
  from 1 2 3 show ?thesis by blast
qed







end
